theory Spec2Isabelle
  imports Complex_Main "HOL-Library.Multiset"
begin

section \<open>Data model\<close>

text \<open>
  The rating subsystem of the backend: \<^verbatim>\<open>models/Rating.js\<close>, \<^verbatim>\<open>models/Resource.js\<close>
  and \<^verbatim>\<open>routes/ratings.js\<close>. Object ids are abstract values. A JavaScript number is
  modelled by its exact value: \<open>int\<close> for the validated star values, \<open>rat\<close> for averages
  (the section on double precision shows that the rounded results are the same).
\<close>

type_synonym oid = nat

text \<open>\<^verbatim>\<open>ratingSchema\<close>: \<open>review\<close> is not required, so a stored document may lack it.\<close>

record rating =
  rating_id :: oid
  user :: oid
  resource :: oid
  stars :: int
  review :: "string option"

text \<open>
  \<^verbatim>\<open>resourceSchema\<close>, restricted to the fields the rating code reads or writes
  (\<open>uploadedBy\<close>, \<open>isActive\<close>, and the denormalised \<open>stars\<close> and \<open>totalRatings\<close>).
\<close>

record Resource =
  uploadedBy :: oid
  resource_stars :: rat
  totalRatings :: nat
  isActive :: bool

text \<open>
  The two collections. \<open>ratings\<close> is kept in insertion order; \<open>nextId\<close> is the source of
  fresh \<^verbatim>\<open>_id\<close> values for new Rating documents.
\<close>

record state =
  ratings :: "rating list"
  resources :: "oid \<rightharpoonup> Resource"
  nextId :: oid

text \<open>
  The failing answers of the routes: 400 with the validation errors, 404 with a message,
  400 \<^verbatim>\<open>Cannot rate your own resource\<close>, 403, and 500 with the message of the
  \<^verbatim>\<open>catch\<close> block.
\<close>

datatype error =
    InvalidInput
  | NotFound string
  | SelfRating
  | Forbidden
  | InternalError string

section \<open>Aggregate recomputation (\<^verbatim>\<open>Rating.updateResourceStars\<close>)\<close>

text \<open>\<^verbatim>\<open>Math.round\<close>: the nearest integer, a tie going towards \<open>+\<infinity>\<close>.\<close>

definition Math_round :: "rat \<Rightarrow> int" where
  "Math_round x = \<lfloor>x + 1 / 2\<rfloor>"

text \<open>\<^verbatim>\<open>{ $match: { resource: resourceId } }\<close>\<close>

definition match_resource :: "oid \<Rightarrow> rating list \<Rightarrow> rating list" where
  "match_resource rid rs = filter (\<lambda>r. resource r = rid) rs"

text \<open>\<^verbatim>\<open>$avg: '$stars'\<close> over a non-empty group.\<close>

definition avg :: "int list \<Rightarrow> rat" where
  "avg xs = of_int (sum_list xs) / of_nat (length xs)"

text \<open>
  The pipeline of \<^verbatim>\<open>updateResourceStars\<close>: \<^verbatim>\<open>$group\<close> with \<^verbatim>\<open>_id: null\<close> yields no
  document when nothing matched and exactly one otherwise.
\<close>

record avg_group =
  g_averageStars :: rat
  g_totalRatings :: nat

definition aggregate_avg :: "rating list \<Rightarrow> oid \<Rightarrow> avg_group list" where
  "aggregate_avg rs rid =
     (let ms = match_resource rid rs in
      if ms = [] then []
      else [\<lparr>g_averageStars = avg (map stars ms), g_totalRatings = length ms\<rparr>])"

text \<open>\<^verbatim>\<open>Resource.findByIdAndUpdate(id, {stars, totalRatings})\<close>: no effect on a missing id.\<close>

definition findByIdAndUpdate :: "oid \<Rightarrow> rat \<Rightarrow> nat \<Rightarrow> state \<Rightarrow> state" where
  "findByIdAndUpdate rid st n s =
     (case resources s rid of
        None \<Rightarrow> s
      | Some r \<Rightarrow> s\<lparr>resources := (resources s)(rid \<mapsto> r\<lparr>resource_stars := st, totalRatings := n\<rparr>)\<rparr>)"

definition updateResourceStars :: "oid \<Rightarrow> state \<Rightarrow> state" where
  "updateResourceStars rid s =
     (case aggregate_avg (ratings s) rid of
        g # _ \<Rightarrow> findByIdAndUpdate rid (of_int (Math_round (g_averageStars g * 10)) / 10)
                   (g_totalRatings g) s
      | [] \<Rightarrow> findByIdAndUpdate rid 0 0 s)"

section \<open>Statistics endpoint (\<^verbatim>\<open>GET /api/ratings/stats/:resourceId\<close>)\<close>

text \<open>The pipeline of the route: the same match and average, plus \<^verbatim>\<open>$push: '$stars'\<close>.\<close>

record stats_group =
  sg_averageStars :: rat
  sg_totalRatings :: nat
  sg_starDistribution :: "int list"

definition aggregate_stats :: "rating list \<Rightarrow> oid \<Rightarrow> stats_group list" where
  "aggregate_stats rs rid =
     (let ms = match_resource rid rs in
      if ms = [] then []
      else [\<lparr>sg_averageStars = avg (map stars ms), sg_totalRatings = length ms,
             sg_starDistribution = map stars ms\<rparr>])"

text \<open>\<^verbatim>\<open>{ 1: 0, 2: 0, 3: 0, 4: 0, 5: 0 }\<close>\<close>

definition zero_distribution :: "int \<rightharpoonup> nat" where
  "zero_distribution = [1 \<mapsto> 0, 2 \<mapsto> 0, 3 \<mapsto> 0, 4 \<mapsto> 0, 5 \<mapsto> 0]"

text \<open>\<^verbatim>\<open>distribution[star] = (distribution[star] || 0) + 1\<close>\<close>

definition count_star :: "int \<Rightarrow> (int \<rightharpoonup> nat) \<Rightarrow> (int \<rightharpoonup> nat)" where
  "count_star star d = d(star \<mapsto> (case d star of None \<Rightarrow> 0 | Some c \<Rightarrow> c) + 1)"

record stats_response =
  averageStars :: rat
  stats_totalRatings :: nat
  starDistribution :: "int \<rightharpoonup> nat"

text \<open>
  \<open>param\<close> is the route parameter after the \<^verbatim>\<open>ObjectId(...)\<close> conversion of line 202:
  \<open>None\<close> when the conversion throws (the text is not an object id, or the driver's
  \<^verbatim>\<open>ObjectId\<close> cannot be called without \<^verbatim>\<open>new\<close>), and the \<^verbatim>\<open>catch\<close> block then answers
  500. The handler never reads the Resource collection.
\<close>

definition get_stats :: "state \<Rightarrow> oid option \<Rightarrow> error + stats_response" where
  "get_stats s param =
     (case param of
        None \<Rightarrow> Inl (InternalError ''Server error while fetching rating statistics'')
      | Some rid \<Rightarrow>
          (case aggregate_stats (ratings s) rid of
             [] \<Rightarrow> Inr \<lparr>averageStars = 0, stats_totalRatings = 0,
                        starDistribution = zero_distribution\<rparr>
           | g # _ \<Rightarrow>
               Inr \<lparr>averageStars = of_int (Math_round (sg_averageStars g * 10)) / 10,
                    stats_totalRatings = sg_totalRatings g,
                    starDistribution = fold count_star (sg_starDistribution g) zero_distribution\<rparr>))"

section \<open>The Rating collection\<close>

text \<open>Errors thrown by the document store, as opposed to the HTTP answers of the routes.\<close>

datatype store_error = DuplicateKey | DocumentNotFound

text \<open>\<^verbatim>\<open>Rating.findOne({ user, resource })\<close> and \<^verbatim>\<open>Rating.findById(id)\<close>.\<close>

definition findOne :: "rating list \<Rightarrow> oid \<Rightarrow> oid \<Rightarrow> rating option" where
  "findOne rs uid rid = find (\<lambda>r. user r = uid \<and> resource r = rid) rs"

definition findById :: "rating list \<Rightarrow> oid \<Rightarrow> rating option" where
  "findById rs i = find (\<lambda>r. rating_id r = i) rs"

text \<open>
  \<^verbatim>\<open>ratingSchema.index({ user: 1, resource: 1 }, { unique: true })\<close>: the store rejects the
  insertion of a second document for a pair.
\<close>

definition insert_rating :: "rating \<Rightarrow> rating list \<Rightarrow> store_error + rating list" where
  "insert_rating doc rs =
     (if \<exists>r \<in> set rs. user r = user doc \<and> resource r = resource doc then Inl DuplicateKey
      else Inr (rs @ [doc]))"

text \<open>\<^verbatim>\<open>ratingSchema.post('save', ...)\<close>: recompute for \<^verbatim>\<open>this.resource\<close>.\<close>

definition post_save :: "rating \<Rightarrow> state \<Rightarrow> state" where
  "post_save doc s = updateResourceStars (resource doc) s"

text \<open>
  \<^verbatim>\<open>doc.save()\<close> for a new document and for one read from the collection. The post hook
  runs only after a successful write. The document written back is the stored one with
  \<open>stars\<close> and \<open>review\<close> reassigned, so replacing it whole is writing the changed fields.
\<close>

definition save_new :: "rating \<Rightarrow> state \<Rightarrow> store_error + state" where
  "save_new doc s =
     (case insert_rating doc (ratings s) of
        Inl e \<Rightarrow> Inl e
      | Inr rs \<Rightarrow> Inr (post_save doc (s\<lparr>ratings := rs\<rparr>)))"

definition save_existing :: "rating \<Rightarrow> state \<Rightarrow> store_error + state" where
  "save_existing doc s =
     (if \<exists>r \<in> set (ratings s). rating_id r = rating_id doc
      then Inr (post_save doc
             (s\<lparr>ratings := map (\<lambda>r. if rating_id r = rating_id doc then doc else r) (ratings s)\<rparr>))
      else Inl DocumentNotFound)"

text \<open>
  A query's \<^verbatim>\<open>_conditions\<close>, and \<^verbatim>\<open>ratingSchema.post('findOneAndDelete', ...)\<close>, which
  recomputes only when the conditions name a resource.
\<close>

record conditions =
  cond_id :: "oid option"
  cond_user :: "oid option"
  cond_resource :: "oid option"

definition matches :: "conditions \<Rightarrow> rating \<Rightarrow> bool" where
  "matches c r =
     ((case cond_id c of None \<Rightarrow> True | Some i \<Rightarrow> rating_id r = i) \<and>
      (case cond_user c of None \<Rightarrow> True | Some u \<Rightarrow> user r = u) \<and>
      (case cond_resource c of None \<Rightarrow> True | Some x \<Rightarrow> resource r = x))"

fun remove_first :: "('a \<Rightarrow> bool) \<Rightarrow> 'a list \<Rightarrow> 'a list" where
  "remove_first P [] = []"
| "remove_first P (x # xs) = (if P x then xs else x # remove_first P xs)"

definition post_findOneAndDelete :: "conditions \<Rightarrow> state \<Rightarrow> state" where
  "post_findOneAndDelete c s =
     (case cond_resource c of Some rid \<Rightarrow> updateResourceStars rid s | None \<Rightarrow> s)"

definition findOneAndDelete :: "conditions \<Rightarrow> state \<Rightarrow> state" where
  "findOneAndDelete c s =
     post_findOneAndDelete c (s\<lparr>ratings := remove_first (matches c) (ratings s)\<rparr>)"

text \<open>\<^verbatim>\<open>Rating.findByIdAndDelete(id)\<close> is \<^verbatim>\<open>findOneAndDelete({ _id: id })\<close>.\<close>

definition findByIdAndDelete :: "oid \<Rightarrow> state \<Rightarrow> state" where
  "findByIdAndDelete i s =
     findOneAndDelete \<lparr>cond_id = Some i, cond_user = None, cond_resource = None\<rparr> s"

section \<open>Submitting a rating (\<^verbatim>\<open>POST /api/ratings\<close>)\<close>

text \<open>
  The request after the auth middleware. \<open>req_resourceId\<close> is \<open>None\<close> when the body's value
  is not an object id; \<open>req_stars\<close> is the body's number (the client sends a number; one
  that is not an integer fails \<^verbatim>\<open>isInt\<close> as an integer out of range does);
  \<open>req_review\<close> is \<open>None\<close> when the body has no review.
\<close>

record post_request =
  req_userId :: oid
  req_resourceId :: "oid option"
  req_stars :: int
  req_review :: "string option"

record post_response =
  message :: string
  resp_rating :: rating

text \<open>The \<^verbatim>\<open>trim()\<close> sanitizer, on the ASCII white space characters.\<close>

definition is_space :: "char \<Rightarrow> bool" where
  "is_space c = (c \<in> {CHR '' '', CHR 0x09, CHR 0x0A, CHR 0x0B, CHR 0x0C, CHR 0x0D})"

definition trim :: "string \<Rightarrow> string" where
  "trim v = rev (dropWhile is_space (rev (dropWhile is_space v)))"

text \<open>
  Lines 39 to 53: update the document found (\<open>assign_fields\<close> is lines 41 and 42), or
  create one. A new document takes its \<^verbatim>\<open>_id\<close> when it is constructed, before the write
  is attempted.
\<close>

definition assign_fields :: "rating \<Rightarrow> int \<Rightarrow> string option \<Rightarrow> rating" where
  "assign_fields old st rv =
     old\<lparr>stars := st, review := (case rv of None \<Rightarrow> review old | Some v \<Rightarrow> Some v)\<rparr>"

definition upsert ::
  "rating option \<Rightarrow> oid \<Rightarrow> oid \<Rightarrow> int \<Rightarrow> string option \<Rightarrow> state
     \<Rightarrow> (store_error + rating) \<times> state" where
  "upsert found uid rid st rv s =
     (case found of
        Some old \<Rightarrow>
          (let doc = assign_fields old st rv
           in case save_existing doc s of
                Inl e \<Rightarrow> (Inl e, s)
              | Inr s' \<Rightarrow> (Inr doc, s'))
      | None \<Rightarrow>
          (let doc = \<lparr>rating_id = nextId s, user = uid, resource = rid, stars = st,
                      review = Some (case rv of None \<Rightarrow> [] | Some v \<Rightarrow> v)\<rparr>;
               s1 = s\<lparr>nextId := Suc (nextId s)\<rparr>
           in case save_new doc s1 of
                Inl e \<Rightarrow> (Inl e, s1)
              | Inr s' \<Rightarrow> (Inr doc, s')))"

text \<open>
  The handler. \<open>seen\<close> is the Rating collection as the existence check of line 37 read it;
  every other step runs on \<open>s\<close>. Any error thrown by the store reaches the \<^verbatim>\<open>catch\<close>
  block, which answers 500. The \<^verbatim>\<open>populate\<close> of the rater's name and email is left
  out: it changes neither collection.
\<close>

definition post_rating_at ::
  "rating list \<Rightarrow> state \<Rightarrow> post_request \<Rightarrow> (error + post_response) \<times> state" where
  "post_rating_at seen s req =
     (case req_resourceId req of
        None \<Rightarrow> (Inl InvalidInput, s)
      | Some rid \<Rightarrow>
          if \<not> (1 \<le> req_stars req \<and> req_stars req \<le> 5) then (Inl InvalidInput, s)
          else if \<not> (case req_review req of None \<Rightarrow> True | Some v \<Rightarrow> length (trim v) \<le> 500)
          then (Inl InvalidInput, s)
          else
            (case resources s rid of
               None \<Rightarrow> (Inl (NotFound ''Resource not found''), s)
             | Some res \<Rightarrow>
                 if \<not> isActive res then (Inl (NotFound ''Resource not found''), s)
                 else if uploadedBy res = req_userId req then (Inl SelfRating, s)
                 else
                   (case upsert (findOne seen (req_userId req) rid) (req_userId req) rid
                           (req_stars req) (map_option trim (req_review req)) s of
                      (Inl e, s') \<Rightarrow>
                        (Inl (InternalError ''Server error while adding rating''), s')
                    | (Inr doc, s') \<Rightarrow>
                        (Inr \<lparr>message = (if stars doc \<noteq> req_stars req
                                          then ''Rating updated successfully''
                                          else ''Rating added successfully''),
                              resp_rating = doc\<rparr>, s'))))"

text \<open>Requests served one at a time: the check reads the collection the write lands on.\<close>

definition post_rating :: "state \<Rightarrow> post_request \<Rightarrow> (error + post_response) \<times> state" where
  "post_rating s req = post_rating_at (ratings s) s req"

section \<open>Deleting a rating (\<^verbatim>\<open>DELETE /api/ratings/:ratingId\<close>)\<close>

record delete_request =
  del_userId :: oid
  del_ratingId :: "oid option"

definition delete_rating :: "state \<Rightarrow> delete_request \<Rightarrow> (error + string) \<times> state" where
  "delete_rating s req =
     (case del_ratingId req of
        None \<Rightarrow> (Inl (InternalError ''Server error while deleting rating''), s)
      | Some i \<Rightarrow>
          (case findById (ratings s) i of
             None \<Rightarrow> (Inl (NotFound ''Rating not found''), s)
           | Some r \<Rightarrow>
               if user r \<noteq> del_userId req then (Inl Forbidden, s)
               else (Inr ''Rating deleted successfully'', findByIdAndDelete i s)))"

section \<open>Rounding as the specification words it\<close>

text \<open>
  Round half away from zero, and rounding to one decimal place with it. These two follow
  the specification's wording, to be compared with \<open>Math_round\<close> above.
\<close>

definition round_half_away_from_zero :: "rat \<Rightarrow> int" where
  "round_half_away_from_zero x = (if 0 \<le> x then \<lfloor>x + 1 / 2\<rfloor> else - \<lfloor>- x + 1 / 2\<rfloor>)"

definition round_one_decimal :: "rat \<Rightarrow> rat" where
  "round_one_decimal x = of_int (round_half_away_from_zero (x * 10)) / 10"

section \<open>Double precision\<close>

text \<open>
  The averages are IEEE 754 doubles in the running program. For the values that occur
  here, between 1 and 64, rounding to the nearest double is rounding to the nearest
  multiple of \<open>2 ^ (e - 52)\<close> in the binade from \<open>2 ^ e\<close> to \<open>2 ^ (e + 1)\<close>, a tie going to the
  even multiple. \<open>double\<close> is that rounding; its constants are \<open>2 ^ 52\<close> down to \<open>2 ^ 47\<close>.
\<close>

text \<open>The nearest integer, a tie going to the even one.\<close>

definition round_even :: "rat \<Rightarrow> int" where
  "round_even x =
     (let f = \<lfloor>x\<rfloor>; d = x - of_int f
      in if d < 1 / 2 then f else if 1 / 2 < d then f + 1 else if even f then f else f + 1)"

text \<open>The nearest multiple of \<open>1 / p\<close>.\<close>

definition fl_to :: "rat \<Rightarrow> rat \<Rightarrow> rat" where
  "fl_to p x = of_int (round_even (x * p)) / p"

definition double :: "rat \<Rightarrow> rat" where
  "double x =
     (if x < 2 then fl_to 4503599627370496 x
      else if x < 4 then fl_to 2251799813685248 x
      else if x < 8 then fl_to 1125899906842624 x
      else if x < 16 then fl_to 562949953421312 x
      else if x < 32 then fl_to 281474976710656 x
      else fl_to 140737488355328 x)"

section \<open>Example states\<close>

definition no_ratings :: state where
  "no_ratings = \<lparr>ratings = [], resources = Map.empty, nextId = 0\<rparr>"

text \<open>Resource 7, uploaded by user 1, rated 5, 5 and 4 by users 2, 3 and 4.\<close>

definition rated_554 :: state where
  "rated_554 =
     \<lparr>ratings =
        [\<lparr>rating_id = 10, user = 2, resource = 7, stars = 5, review = Some []\<rparr>,
         \<lparr>rating_id = 11, user = 3, resource = 7, stars = 5, review = Some []\<rparr>,
         \<lparr>rating_id = 12, user = 4, resource = 7, stars = 4, review = Some []\<rparr>],
      resources =
        [7 \<mapsto> \<lparr>uploadedBy = 1, resource_stars = 47 / 10, totalRatings = 3, isActive = True\<rparr>],
      nextId = 13\<rparr>"

text \<open>Resource 7 rated 5, 4, 4 and 4: the mean 4.25 is a tie between 4.2 and 4.3.\<close>

definition rated_5444 :: state where
  "rated_5444 =
     \<lparr>ratings =
        [\<lparr>rating_id = 10, user = 2, resource = 7, stars = 5, review = Some []\<rparr>,
         \<lparr>rating_id = 11, user = 3, resource = 7, stars = 4, review = Some []\<rparr>,
         \<lparr>rating_id = 12, user = 4, resource = 7, stars = 4, review = Some []\<rparr>,
         \<lparr>rating_id = 13, user = 5, resource = 7, stars = 4, review = Some []\<rparr>],
      resources =
        [7 \<mapsto> \<lparr>uploadedBy = 1, resource_stars = 0, totalRatings = 0, isActive = True\<rparr>],
      nextId = 14\<rparr>"

text \<open>Resource 7 with no rating yet, and with the schema's default aggregate.\<close>

definition unrated :: state where
  "unrated =
     \<lparr>ratings = [],
      resources =
        [7 \<mapsto> \<lparr>uploadedBy = 1, resource_stars = 0, totalRatings = 0, isActive = True\<rparr>],
      nextId = 10\<rparr>"

text \<open>Resource 7 rated 4 by user 2 alone; the stored aggregate is in step.\<close>

definition rated_once :: state where
  "rated_once =
     \<lparr>ratings = [\<lparr>rating_id = 10, user = 2, resource = 7, stars = 4, review = Some []\<rparr>],
      resources =
        [7 \<mapsto> \<lparr>uploadedBy = 1, resource_stars = 4, totalRatings = 1, isActive = True\<rparr>],
      nextId = 11\<rparr>"

text \<open>Resource 7 rated 5 by user 2 and 4 by user 3; the stored aggregate is in step.\<close>

definition rated_54 :: state where
  "rated_54 =
     \<lparr>ratings =
        [\<lparr>rating_id = 10, user = 2, resource = 7, stars = 5, review = Some []\<rparr>,
         \<lparr>rating_id = 11, user = 3, resource = 7, stars = 4, review = Some []\<rparr>],
      resources =
        [7 \<mapsto> \<lparr>uploadedBy = 1, resource_stars = 9 / 2, totalRatings = 2, isActive = True\<rparr>],
      nextId = 12\<rparr>"

section \<open>States the routes can produce\<close>

text \<open>At most one rating for a pair of user and resource.\<close>

definition unique_pairs :: "rating list \<Rightarrow> bool" where
  "unique_pairs rs = distinct (map (\<lambda>r. (user r, resource r)) rs)"

text \<open>
  The states reached from an empty Rating collection by the two mutating routes. A
  submission is served either alone, or with an existence check that ran before another
  request wrote and so saw no rating for the pair.
\<close>

inductive reachable :: "state \<Rightarrow> bool" where
  start: "ratings s = [] \<Longrightarrow> reachable s"
| submit: "reachable s \<Longrightarrow> reachable (snd (post_rating s req))"
| submit_late:
    "reachable s \<Longrightarrow> req_resourceId req = Some rid \<Longrightarrow>
     findOne seen (req_userId req) rid = None \<Longrightarrow>
     reachable (snd (post_rating_at seen s req))"
| delete: "reachable s \<Longrightarrow> reachable (snd (delete_rating s dreq))"

text \<open>
  What holds of every such state: fresh ids, one rating for a pair, and a stored
  \<open>totalRatings\<close> that is never below the number of ratings of the resource.
\<close>

definition ids_below :: "state \<Rightarrow> bool" where
  "ids_below s =
     (distinct (map rating_id (ratings s)) \<and> (\<forall>r \<in> set (ratings s). rating_id r < nextId s))"

definition counts_covered :: "state \<Rightarrow> bool" where
  "counts_covered s =
     (\<forall>rid res. resources s rid = Some res \<longrightarrow>
        length (match_resource rid (ratings s)) \<le> totalRatings res)"

definition invariant :: "state \<Rightarrow> bool" where
  "invariant s = (unique_pairs (ratings s) \<and> ids_below s \<and> counts_covered s)"

section \<open>Facts about recomputation and the statistics\<close>

lemma findByIdAndUpdate_ratings [simp]: "ratings (findByIdAndUpdate rid a n s) = ratings s"
  by (simp add: findByIdAndUpdate_def split: option.splits)

lemma findByIdAndUpdate_twice:
  "findByIdAndUpdate rid a n (findByIdAndUpdate rid a n s) = findByIdAndUpdate rid a n s"
  by (simp add: findByIdAndUpdate_def split: option.splits)

lemma updateResourceStars_ratings [simp]: "ratings (updateResourceStars rid s) = ratings s"
  by (simp add: updateResourceStars_def findByIdAndUpdate_def split: list.splits option.splits)

lemma updateResourceStars_nextId [simp]: "nextId (updateResourceStars rid s) = nextId s"
  by (simp add: updateResourceStars_def findByIdAndUpdate_def split: list.splits option.splits)

text \<open>What a recomputation leaves in the Resource collection.\<close>

lemma updateResourceStars_resources:
  "resources (updateResourceStars rid s) =
     (case resources s rid of
        None \<Rightarrow> resources s
      | Some r \<Rightarrow> (resources s)(rid \<mapsto>
          r\<lparr>resource_stars :=
               (if match_resource rid (ratings s) = [] then 0
                else of_int (Math_round (avg (map stars (match_resource rid (ratings s))) * 10)) / 10),
             totalRatings := length (match_resource rid (ratings s))\<rparr>))"
  by (simp add: updateResourceStars_def findByIdAndUpdate_def aggregate_avg_def Let_def
      split: option.splits)

text \<open>What the statistics route answers for a well-formed id.\<close>

lemma get_stats_Some:
  "get_stats s (Some rid) =
     Inr \<lparr>averageStars =
            (if match_resource rid (ratings s) = [] then 0
             else of_int (Math_round (avg (map stars (match_resource rid (ratings s))) * 10)) / 10),
          stats_totalRatings = length (match_resource rid (ratings s)),
          starDistribution =
            fold count_star (map stars (match_resource rid (ratings s))) zero_distribution\<rparr>"
  by (simp add: get_stats_def aggregate_stats_def Let_def)

subsection \<open>Idempotence of recomputation\<close>

text \<open>
  Claim C9. Recompute is idempotent: for every resource id and every state, running
  \<open>updateResourceStars\<close> twice in a row, with no change to the Rating collection in between,
  leaves the same state (hence the same \<open>stars\<close> and \<open>totalRatings\<close> on the Resource) as
  running it once.
\<close>

theorem recompute_idempotent:
  "updateResourceStars rid (updateResourceStars rid s) = updateResourceStars rid s"
proof (cases "aggregate_avg (ratings s) rid")
  case Nil
  then show ?thesis
    by (simp add: updateResourceStars_def findByIdAndUpdate_twice)
next
  case (Cons g gs)
  then show ?thesis
    by (simp add: updateResourceStars_def findByIdAndUpdate_twice)
qed

subsection \<open>The stored aggregate and the on-demand aggregate\<close>

text \<open>
  Claim C10. The aggregate written by \<open>updateResourceStars\<close> and the one computed by the
  statistics route are the same function of the ratings: for every state and resource id
  the route answers with some statistics, and whenever the Resource exists the \<open>stars\<close> and
  \<open>totalRatings\<close> that a recomputation writes on it equal the \<open>averageStars\<close> and
  \<open>totalRatings\<close> of that answer.
\<close>

theorem recompute_agrees_with_stats:
  "\<exists>resp. get_stats s (Some rid) = Inr resp \<and>
     (\<forall>r. resources s rid = Some r \<longrightarrow>
        (\<exists>r'. resources (updateResourceStars rid s) rid = Some r' \<and>
           resource_stars r' = averageStars resp \<and>
           totalRatings r' = stats_totalRatings resp))"
  by (simp add: get_stats_Some updateResourceStars_resources)

theorem recompute_agrees_with_stats_witness:
  "\<exists>resp r'. get_stats rated_5444 (Some 7) = Inr resp \<and>
      resources (updateResourceStars 7 rated_5444) 7 = Some r' \<and>
      resource_stars r' = 43 / 10 \<and> averageStars resp = 43 / 10 \<and>
      totalRatings r' = 4 \<and> stats_totalRatings resp = 4"
  using recompute_agrees_with_stats [of rated_5444 7]
  by (simp add: rated_5444_def get_stats_Some updateResourceStars_resources match_resource_def
      avg_def Math_round_def floor_eq_iff)

subsection \<open>The rounding mode\<close>

lemma Math_round_nonneg: "0 \<le> x \<Longrightarrow> Math_round x = round_half_away_from_zero x"
  by (simp add: Math_round_def round_half_away_from_zero_def)

text \<open>Below zero the two roundings part: a tie goes up in one and down in the other.\<close>

lemma Math_round_differs_below_zero:
  "Math_round (- 1 / 2) = 0 \<and> round_half_away_from_zero (- 1 / 2) = - 1"
  by (simp add: Math_round_def round_half_away_from_zero_def)

lemma avg_nonneg: "\<forall>x \<in> set xs. 0 \<le> x \<Longrightarrow> 0 \<le> avg xs"
  by (simp add: avg_def sum_list_nonneg)

text \<open>
  Claim C6. For every resource with at least one rating, all of whose star values lie
  between 1 and 5, the \<open>averageStars\<close> answered by the statistics route and the \<open>stars\<close>
  written by a recomputation are the exact mean rounded to one decimal place, half away
  from zero: \<^verbatim>\<open>Math.round(mean * 10) / 10\<close> and that rounding agree on every such mean.
\<close>

theorem rounding_is_half_away_from_zero:
  assumes "match_resource rid (ratings s) \<noteq> []"
    and "\<forall>r \<in> set (match_resource rid (ratings s)). 1 \<le> stars r \<and> stars r \<le> 5"
  shows "\<exists>resp. get_stats s (Some rid) = Inr resp \<and>
           averageStars resp =
             round_one_decimal (avg (map stars (match_resource rid (ratings s)))) \<and>
           (\<forall>r. resources s rid = Some r \<longrightarrow>
              map_option resource_stars (resources (updateResourceStars rid s) rid) =
                Some (round_one_decimal (avg (map stars (match_resource rid (ratings s))))))"
proof -
  let ?m = "avg (map stars (match_resource rid (ratings s)))"
  have "0 \<le> ?m"
    using assms(2) by (intro avg_nonneg) auto
  then have "0 \<le> ?m * 10" by simp
  then have "Math_round (?m * 10) = round_half_away_from_zero (?m * 10)"
    by (rule Math_round_nonneg)
  then show ?thesis
    using assms(1)
    by (simp add: get_stats_Some updateResourceStars_resources round_one_decimal_def)
qed

theorem rounding_is_half_away_from_zero_witness:
  "map stars (match_resource 7 (ratings rated_5444)) = [5, 4, 4, 4] \<and>
   avg [5, 4, 4, 4] = 17 / 4 \<and> round_one_decimal (17 / 4) = 43 / 10 \<and>
   (\<exists>resp. get_stats rated_5444 (Some 7) = Inr resp \<and> averageStars resp = 43 / 10) \<and>
   map_option resource_stars (resources (updateResourceStars 7 rated_5444) 7) = Some (43 / 10)"
proof -
  have ms: "match_resource 7 (ratings rated_5444) = ratings rated_5444"
    by (simp add: rated_5444_def match_resource_def)
  have h1: "match_resource 7 (ratings rated_5444) \<noteq> []"
    by (simp add: ms) (simp add: rated_5444_def)
  have h2: "\<forall>r \<in> set (match_resource 7 (ratings rated_5444)). 1 \<le> stars r \<and> stars r \<le> 5"
    by (simp add: ms) (simp add: rated_5444_def)
  have st: "map stars (match_resource 7 (ratings rated_5444)) = [5, 4, 4, 4]"
    by (simp add: ms) (simp add: rated_5444_def)
  have av: "avg [5, 4, 4, 4] = 17 / 4"
    by (simp add: avg_def)
  have rd: "round_one_decimal (17 / 4) = 43 / 10"
    by (simp add: round_one_decimal_def round_half_away_from_zero_def floor_eq_iff)
  have res: "resources rated_5444 7 =
      Some \<lparr>uploadedBy = 1, resource_stars = 0, totalRatings = 0, isActive = True\<rparr>"
    by (simp add: rated_5444_def)
  show ?thesis
    using rounding_is_half_away_from_zero [OF h1 h2] res
    by (auto simp add: st av rd)
qed

subsection \<open>The rounding in double precision\<close>

lemma double_scales:
  "(4503599627370496::rat) = 2 ^ 52" "(2251799813685248::rat) = 2 ^ 51"
  "(1125899906842624::rat) = 2 ^ 50" "(562949953421312::rat) = 2 ^ 49"
  "(281474976710656::rat) = 2 ^ 48" "(140737488355328::rat) = 2 ^ 47"
  by simp_all

lemma round_even_near: "\<bar>of_int (round_even x) - x\<bar> \<le> 1 / 2"
proof -
  have "of_int \<lfloor>x\<rfloor> \<le> x" and "x < of_int \<lfloor>x\<rfloor> + 1"
    by linarith+
  then show ?thesis
    by (auto simp: round_even_def Let_def abs_le_iff)
qed

lemma fl_to_near:
  assumes "0 < p"
  shows "\<bar>fl_to p x - x\<bar> \<le> 1 / (2 * p)"
proof -
  have "\<bar>fl_to p x - x\<bar> = \<bar>of_int (round_even (x * p)) - x * p\<bar> / p"
    using assms by (simp add: fl_to_def field_simps abs_mult [symmetric] abs_divide)
  also have "\<dots> \<le> (1 / 2) / p"
    using assms by (intro divide_right_mono [OF round_even_near]) simp
  finally show ?thesis by simp
qed

lemma double_near: "\<bar>double x - x\<bar> \<le> 1 / 281474976710656"
proof -
  have "\<And>p. 140737488355328 \<le> p \<Longrightarrow> \<bar>fl_to p x - x\<bar> \<le> 1 / 281474976710656"
  proof -
    fix p :: rat assume p: "140737488355328 \<le> p"
    then have "\<bar>fl_to p x - x\<bar> \<le> 1 / (2 * p)"
      by (intro fl_to_near) simp
    also have "\<dots> \<le> 1 / 281474976710656"
      using p by (intro divide_left_mono) simp_all
    finally show "\<bar>fl_to p x - x\<bar> \<le> 1 / 281474976710656" .
  qed
  then show ?thesis by (simp add: double_def)
qed

lemma double_near_below_8:
  assumes "x < 8"
  shows "\<bar>double x - x\<bar> \<le> 1 / 2251799813685248"
proof -
  have "\<And>p. 1125899906842624 \<le> p \<Longrightarrow> \<bar>fl_to p x - x\<bar> \<le> 1 / 2251799813685248"
  proof -
    fix p :: rat assume p: "1125899906842624 \<le> p"
    then have "\<bar>fl_to p x - x\<bar> \<le> 1 / (2 * p)"
      by (intro fl_to_near) simp
    also have "\<dots> \<le> 1 / 2251799813685248"
      using p by (intro divide_left_mono) simp_all
    finally show "\<bar>fl_to p x - x\<bar> \<le> 1 / 2251799813685248" .
  qed
  then show ?thesis using assms by (simp add: double_def)
qed

text \<open>
  The ties: a mean \<open>(2k - 1) / 20\<close> is ten times below the half integer \<open>k - 1 / 2\<close>. Each
  of the forty ties between 1 and 5 survives the two roundings exactly.
\<close>

lemma ties_exact:
  "list_all (\<lambda>k. double (double ((2 * of_int k - 1) / 20) * 10) = (2 * of_int k - 1) / 2)
     [11..50]"
  by code_simp

lemma tie_exact:
  assumes "11 \<le> k" and "k \<le> 50"
  shows "double (double ((2 * of_int k - 1) / 20) * 10) = (2 * of_int k - 1) / 2"
proof -
  have "k \<in> set [11..50]"
    using assms by (simp only: set_upto atLeastAtMost_iff)
  with ties_exact show ?thesis
    unfolding list_all_iff by blast
qed

lemma sum_list_range:
  "\<forall>x \<in> set xs. 1 \<le> x \<and> x \<le> 5 \<Longrightarrow>
   int (length xs) \<le> sum_list xs \<and> sum_list xs \<le> 5 * int (length xs)"
  by (induction xs) auto

lemma avg_range:
  assumes "xs \<noteq> []" and "\<forall>x \<in> set xs. 1 \<le> x \<and> x \<le> 5"
  shows "1 \<le> avg xs \<and> avg xs \<le> 5"
proof -
  have n: "(0::rat) < of_nat (length xs)" using assms(1) by simp
  have "(of_nat (length xs) :: rat) \<le> of_int (sum_list xs)"
    using sum_list_range [OF assms(2)] by (metis of_int_le_iff of_int_of_nat_eq)
  moreover have "(of_int (sum_list xs) :: rat) \<le> 5 * of_nat (length xs)"
  proof -
    have "(of_int (sum_list xs) :: rat) \<le> of_int (5 * int (length xs))"
      using sum_list_range [OF assms(2)] by (simp only: of_int_le_iff)
    then show ?thesis by simp
  qed
  ultimately show ?thesis
    using n by (simp add: avg_def le_divide_eq divide_le_eq)
qed

text \<open>
  With the average rounded to a double by the store and the product by 10 rounded to a
  double again, \<^verbatim>\<open>Math.round\<close> returns the same integer as on the exact mean, for up to
  \<open>2 ^ 40\<close> ratings: computing with exact rationals loses nothing.
\<close>

lemma double_rounding_agrees:
  assumes "xs \<noteq> []" and "\<forall>x \<in> set xs. 1 \<le> x \<and> x \<le> 5" and "length xs \<le> 2 ^ 40"
  shows "Math_round (double (double (avg xs) * 10)) = Math_round (avg xs * 10)"
proof -
  define n where "n = length xs"
  define S where "S = sum_list xs"
  define m where "m = avg xs"
  define k where "k = Math_round (m * 10)"
  define w where "w = double (double m * 10)"
  define t where "t = m * 10 + 1 / 2 - of_int k"
  have n0: "(0::rat) < of_nat n" using assms(1) by (simp add: n_def)
  have m: "m = of_int S / of_nat n" by (simp add: m_def avg_def S_def n_def)
  have mr: "1 \<le> m" "m \<le> 5" using avg_range [OF assms(1,2)] by (simp_all add: m_def)
  have t0: "0 \<le> t" and t1: "t < 1"
    unfolding t_def k_def Math_round_def by linarith+
  have e1: "\<bar>double m - m\<bar> \<le> 1 / 2251799813685248"
    using mr by (intro double_near_below_8) simp
  have e2: "\<bar>w - double m * 10\<bar> \<le> 1 / 281474976710656"
    unfolding w_def by (rule double_near)
  have "\<bar>w - m * 10\<bar> \<le> \<bar>w - double m * 10\<bar> + \<bar>10 * (double m - m)\<bar>"
    using abs_triangle_ineq [of "w - double m * 10" "10 * (double m - m)"]
    by (simp add: algebra_simps)
  also have "\<dots> = \<bar>w - double m * 10\<bar> + 10 * \<bar>double m - m\<bar>"
    by (simp only: abs_mult abs_numeral)
  also have "\<dots> \<le> 1 / 281474976710656 + 10 * (1 / 2251799813685248)"
    using e1 e2 by (intro add_mono mult_left_mono) simp_all
  also have "\<dots> < 1 / 2199023255552"
    by simp
  finally have err: "\<bar>w - m * 10\<bar> < 1 / 2199023255552" .
  then have eu: "w - m * 10 < 1 / 2199023255552" and "- (w - m * 10) < 1 / 2199023255552"
    by (simp_all only: abs_less_iff)
  then have el: "m * 10 - w < 1 / 2199023255552"
    by (simp only: minus_diff_eq)
  show ?thesis
  proof (cases "t = 0")
    case True
    then have mk: "m = (2 * of_int k - 1) / 20" by (simp add: t_def field_simps)
    have "20 \<le> 2 * (of_int k :: rat) - 1" and "2 * (of_int k :: rat) - 1 \<le> 100"
      using mr by (simp_all add: mk)
    then have "(of_int 21 :: rat) \<le> of_int (2 * k)" and "(of_int (2 * k) :: rat) \<le> of_int 101"
      by simp_all
    then have "21 \<le> 2 * k" and "2 * k \<le> 101"
      by (simp_all only: of_int_le_iff)
    then have "11 \<le> k" and "k \<le> 50" by simp_all
    then have "w = (2 * of_int k - 1) / 2"
      unfolding w_def mk by (rule tie_exact)
    also have "\<dots> = m * 10" by (simp add: mk)
    finally show ?thesis by (simp add: w_def m_def)
  next
    case False
    define I where "I = 20 * S + int n - 2 * k * int n"
    have I: "of_int I = 2 * of_nat n * t"
      using n0 by (simp add: I_def t_def m field_simps)
    have nb: "2 * (of_nat n :: rat) \<le> 2199023255552"
    proof -
      have "(of_nat n :: rat) \<le> of_nat (2 ^ 40)"
        using assms(3) unfolding n_def by (simp only: of_nat_le_iff)
      then show ?thesis by simp
    qed
    have "0 < t" using False t0 by simp
    then have "(0::rat) < of_int I" using n0 by (simp add: I)
    then have "1 \<le> I" by simp
    then have "(1::rat) \<le> of_int I" by simp
    then have "1 \<le> 2 * of_nat n * t" by (simp only: I)
    also have "\<dots> \<le> 2199023255552 * t"
      using nb \<open>0 < t\<close> by (intro mult_right_mono) simp_all
    finally have lo: "1 / 2199023255552 \<le> t" by simp
    have "(0::rat) < of_int (2 * int n - I)"
      using n0 t1 by (simp add: I)
    then have "1 \<le> 2 * int n - I" by simp
    then have "(1::rat) \<le> of_int (2 * int n - I)" by (simp only: of_int_1_le_iff)
    then have "1 \<le> 2 * (of_nat n :: rat) * (1 - t)"
      by (simp add: I algebra_simps)
    also have "\<dots> \<le> 2199023255552 * (1 - t)"
      using nb t1 by (intro mult_right_mono) simp_all
    finally have hi: "t \<le> 1 - 1 / 2199023255552" by simp
    have "of_int k \<le> w + 1 / 2" and "w + 1 / 2 < of_int k + 1"
      using el eu lo hi unfolding t_def by linarith+
    then have "\<lfloor>w + 1 / 2\<rfloor> = k" by (simp add: floor_eq_iff)
    then show ?thesis by (simp add: Math_round_def w_def k_def m_def)
  qed
qed

subsection \<open>The star distribution\<close>

text \<open>Counting is insensitive to the order in which the store returns the ratings.\<close>

lemma count_star_commute: "count_star a (count_star b d) = count_star b (count_star a d)"
  by (auto simp: count_star_def fun_eq_iff)

lemma fold_count_star_mset:
  assumes "mset xs = mset ys"
  shows "fold count_star xs d = fold count_star ys d"
proof -
  have "fold count_star xs = fold count_star ys"
    by (rule fold_multiset_equiv [OF _ assms]) (simp add: fun_eq_iff count_star_commute)
  then show ?thesis by simp
qed

lemma fold_count_star_554:
  "fold count_star [5, 5, 4] zero_distribution =
     [1 \<mapsto> 0, 2 \<mapsto> 0, 3 \<mapsto> 0, 4 \<mapsto> 1, 5 \<mapsto> 2]"
  by (simp add: count_star_def zero_distribution_def fun_eq_iff)

lemma Math_round_140_3: "Math_round (14 / 3 * 10) = 47"
  by (simp add: Math_round_def floor_eq_iff)

text \<open>
  Claim C7. For a resource whose ratings have the stars 5, 5 and 4, in whatever order the
  store holds them, the statistics route answers \<open>averageStars\<close> 4.7, \<open>totalRatings\<close> 3 and
  the distribution \<open>{1: 0, 2: 0, 3: 0, 4: 1, 5: 2}\<close>; each of the buckets 1 to 5 is present,
  the empty ones with the count 0.
\<close>

theorem stats_scenario:
  assumes "mset (map stars (match_resource rid (ratings s))) = {#5, 5, 4#}"
  shows "\<exists>resp. get_stats s (Some rid) = Inr resp \<and>
           averageStars resp = 47 / 10 \<and> stats_totalRatings resp = 3 \<and>
           starDistribution resp = [1 \<mapsto> 0, 2 \<mapsto> 0, 3 \<mapsto> 0, 4 \<mapsto> 1, 5 \<mapsto> 2] \<and>
           dom (starDistribution resp) = {1, 2, 3, 4, 5}"
proof -
  let ?xs = "map stars (match_resource rid (ratings s))"
  have m: "mset ?xs = mset [5, 5, 4]" using assms by simp
  have len: "length ?xs = 3"
    using arg_cong [OF m, of size] by simp
  have "sum_list ?xs = sum_mset (mset ?xs)"
    by (simp only: sum_mset_sum_list)
  also have "\<dots> = sum_mset (mset [5, 5, 4])"
    by (simp only: m)
  finally have sum: "sum_list ?xs = 14" by simp
  have ne: "match_resource rid (ratings s) \<noteq> []" using len by auto
  have d: "fold count_star ?xs zero_distribution =
      [1 \<mapsto> 0, 2 \<mapsto> 0, 3 \<mapsto> 0, 4 \<mapsto> 1, 5 \<mapsto> 2]"
    using fold_count_star_mset [OF m] fold_count_star_554 by simp
  have "avg ?xs = 14 / 3" using len sum by (simp add: avg_def)
  then have a: "Math_round (avg ?xs * 10) = 47"
    by (simp only: Math_round_140_3)
  have "get_stats s (Some rid) =
      Inr \<lparr>averageStars = 47 / 10, stats_totalRatings = 3,
           starDistribution = [1 \<mapsto> 0, 2 \<mapsto> 0, 3 \<mapsto> 0, 4 \<mapsto> 1, 5 \<mapsto> 2]\<rparr>"
    using ne len d a by (simp add: get_stats_Some)
  then show ?thesis by auto
qed

theorem stats_scenario_witness:
  "map stars (match_resource 7 (ratings rated_554)) = [5, 5, 4] \<and>
   get_stats rated_554 (Some 7) =
     Inr \<lparr>averageStars = 47 / 10, stats_totalRatings = 3,
          starDistribution = [1 \<mapsto> 0, 2 \<mapsto> 0, 3 \<mapsto> 0, 4 \<mapsto> 1, 5 \<mapsto> 2]\<rparr>"
proof -
  have st: "map stars (match_resource 7 (ratings rated_554)) = [5, 5, 4]"
    by (simp add: rated_554_def match_resource_def)
  then have "mset (map stars (match_resource 7 (ratings rated_554))) = {#5, 5, 4#}"
    by simp
  from stats_scenario [OF this] st show ?thesis by auto
qed

subsection \<open>Statistics for an id without a resource\<close>

text \<open>
  Claim C5 as stated fails: no resource has the id 7, and the statistics route answers
  with zeroed statistics instead of a \<open>NotFound\<close> error.
\<close>

theorem stats_of_missing_resource_counterexample:
  "resources no_ratings 7 = None \<and>
   get_stats no_ratings (Some 7) =
     Inr \<lparr>averageStars = 0, stats_totalRatings = 0,
          starDistribution = [1 \<mapsto> 0, 2 \<mapsto> 0, 3 \<mapsto> 0, 4 \<mapsto> 0, 5 \<mapsto> 0]\<rparr>"
  by (simp add: no_ratings_def get_stats_Some match_resource_def zero_distribution_def)

text \<open>
  Claim C5, amended. The statistics route never answers \<open>NotFound\<close> and does not read the
  Resource collection: its answer is the same whatever that collection holds, and for an
  id that no rating refers to, whether or not a resource has it, the answer is the
  zeroed statistics.
\<close>

theorem stats_never_not_found:
  "get_stats s param \<noteq> Inl (NotFound msg) \<and>
   get_stats (s\<lparr>resources := rs\<rparr>) param = get_stats s param \<and>
   (match_resource rid (ratings s) = [] \<longrightarrow>
      get_stats s (Some rid) =
        Inr \<lparr>averageStars = 0, stats_totalRatings = 0,
             starDistribution = [1 \<mapsto> 0, 2 \<mapsto> 0, 3 \<mapsto> 0, 4 \<mapsto> 0, 5 \<mapsto> 0]\<rparr>)"
  by (cases param)
    (simp_all add: get_stats_Some zero_distribution_def, simp_all add: get_stats_def)

theorem stats_never_not_found_witness:
  "match_resource 7 (ratings no_ratings) = [] \<and> resources no_ratings 7 = None \<and>
   get_stats no_ratings (Some 7) \<noteq> Inl (NotFound ''Resource not found'') \<and>
   get_stats no_ratings (Some 7) =
     Inr \<lparr>averageStars = 0, stats_totalRatings = 0,
          starDistribution = [1 \<mapsto> 0, 2 \<mapsto> 0, 3 \<mapsto> 0, 4 \<mapsto> 0, 5 \<mapsto> 0]\<rparr>"
  using stats_never_not_found [of no_ratings "Some 7" "''Resource not found''" Map.empty 7]
  by (simp add: no_ratings_def match_resource_def)

section \<open>Facts about the two mutating routes\<close>

lemma Math_round_numeral: "Math_round (numeral k) = numeral k"
  by (simp add: Math_round_def floor_eq_iff)

lemma findOne_Some:
  "findOne rs u rid = Some x \<Longrightarrow> x \<in> set rs \<and> user x = u \<and> resource x = rid"
  by (auto simp: findOne_def find_Some_iff)

text \<open>The two branches of lines 39 to 53, spelled out.\<close>

lemma upsert_None:
  "upsert None u rid st rv s =
     (let doc = \<lparr>rating_id = nextId s, user = u, resource = rid, stars = st,
                  review = Some (case rv of None \<Rightarrow> [] | Some v \<Rightarrow> v)\<rparr>
      in if \<exists>r \<in> set (ratings s). user r = u \<and> resource r = rid
         then (Inl DuplicateKey, s\<lparr>nextId := Suc (nextId s)\<rparr>)
         else (Inr doc,
               updateResourceStars rid
                 (s\<lparr>nextId := Suc (nextId s), ratings := ratings s @ [doc]\<rparr>)))"
  by (simp add: upsert_def save_new_def insert_rating_def post_save_def Let_def)

lemma assign_fields_simps [simp]:
  "rating_id (assign_fields old st rv) = rating_id old"
  "user (assign_fields old st rv) = user old"
  "resource (assign_fields old st rv) = resource old"
  "stars (assign_fields old st rv) = st"
  "review (assign_fields old st rv) = (case rv of None \<Rightarrow> review old | Some v \<Rightarrow> Some v)"
  by (simp_all add: assign_fields_def)

lemma upsert_Some:
  "upsert (Some old) u rid st rv s =
     (let doc = assign_fields old st rv
      in if \<exists>r \<in> set (ratings s). rating_id r = rating_id old
         then (Inr doc,
               updateResourceStars (resource old)
                 (s\<lparr>ratings :=
                      map (\<lambda>r. if rating_id r = rating_id old then doc else r) (ratings s)\<rparr>))
         else (Inl DocumentNotFound, s))"
  by (simp add: upsert_def save_existing_def post_save_def Let_def)

text \<open>A request that passes every check of lines 18 to 34 reaches the upsert.\<close>

lemma post_rating_at_accepted:
  assumes "req_resourceId req = Some rid"
    and "1 \<le> req_stars req" and "req_stars req \<le> 5"
    and "case req_review req of None \<Rightarrow> True | Some v \<Rightarrow> length (trim v) \<le> 500"
    and "resources s rid = Some res" and "isActive res" and "uploadedBy res \<noteq> req_userId req"
  shows "post_rating_at seen s req =
           (case upsert (findOne seen (req_userId req) rid) (req_userId req) rid
                   (req_stars req) (map_option trim (req_review req)) s of
              (Inl e, s') \<Rightarrow> (Inl (InternalError ''Server error while adding rating''), s')
            | (Inr doc, s') \<Rightarrow>
                (Inr \<lparr>message = (if stars doc \<noteq> req_stars req
                                  then ''Rating updated successfully''
                                  else ''Rating added successfully''),
                      resp_rating = doc\<rparr>, s'))"
  using assms by (simp add: post_rating_at_def)

lemma post_rating_at_state:
  "snd (post_rating_at seen s req) = s \<or>
   (\<exists>rid. req_resourceId req = Some rid \<and>
      snd (post_rating_at seen s req) =
        snd (upsert (findOne seen (req_userId req) rid) (req_userId req) rid (req_stars req)
               (map_option trim (req_review req)) s))"
  by (simp add: post_rating_at_def split: option.splits prod.splits sum.splits)

text \<open>\<^verbatim>\<open>findByIdAndDelete\<close> removes the document and leaves everything else as it was.\<close>

lemma findByIdAndDelete_eq:
  "findByIdAndDelete i s = s\<lparr>ratings := remove_first (\<lambda>r. rating_id r = i) (ratings s)\<rparr>"
proof -
  have "matches \<lparr>cond_id = Some i, cond_user = None, cond_resource = None\<rparr> =
      (\<lambda>r. rating_id r = i)"
    by (simp add: fun_eq_iff matches_def)
  then show ?thesis
    by (simp add: findByIdAndDelete_def findOneAndDelete_def post_findOneAndDelete_def)
qed

lemma delete_rating_state:
  "snd (delete_rating s req) = s \<or> (\<exists>i. snd (delete_rating s req) = findByIdAndDelete i s)"
  by (auto simp: delete_rating_def split: option.splits)

subsection \<open>Submitting recomputes, deleting does not\<close>

text \<open>
  After every successful submission, a create or an update, the stored aggregate of the
  rated resource is the count and the rounded mean of its ratings.
\<close>

lemma submit_recomputes:
  assumes "post_rating_at seen s req = (Inr resp, s')"
  shows "\<exists>rid res'. req_resourceId req = Some rid \<and> resource (resp_rating resp) = rid \<and>
           resources s' rid = Some res' \<and>
           totalRatings res' = length (match_resource rid (ratings s')) \<and>
           resource_stars res' =
             (if match_resource rid (ratings s') = [] then 0
              else of_int (Math_round (avg (map stars (match_resource rid (ratings s'))) * 10))
                     / 10)"
proof -
  from assms obtain rid res doc where rid: "req_resourceId req = Some rid"
    and res: "resources s rid = Some res"
    and up: "upsert (findOne seen (req_userId req) rid) (req_userId req) rid (req_stars req)
               (map_option trim (req_review req)) s = (Inr doc, s')"
    and doc: "resp_rating resp = doc"
    by (auto simp: post_rating_at_def split: option.splits if_splits prod.splits sum.splits)
  have r: "resource doc = rid"
  proof (cases "findOne seen (req_userId req) rid")
    case None
    then show ?thesis using up by (auto simp: upsert_None Let_def split: if_splits)
  next
    case (Some old)
    then show ?thesis
      using up findOne_Some [OF Some] by (auto simp: upsert_Some Let_def split: if_splits)
  qed
  obtain t where s': "s' = updateResourceStars rid t" and t: "resources t rid = Some res"
  proof (cases "findOne seen (req_userId req) rid")
    case None
    then show ?thesis using up res that by (auto simp: upsert_None Let_def split: if_splits)
  next
    case (Some old)
    then show ?thesis
      using up res that findOne_Some [OF Some]
      by (auto simp: upsert_Some Let_def split: if_splits)
  qed
  show ?thesis
    using rid r t by (simp add: s' doc updateResourceStars_resources)
qed

text \<open>The delete route never writes to the Resource collection.\<close>

lemma delete_keeps_resources: "resources (snd (delete_rating s req)) = resources s"
  using delete_rating_state [of s req] by (auto simp: findByIdAndDelete_eq)

text \<open>
  Claim C1, at an input where the code departs from it. The claim: after every completed
  rating mutation the resource's \<open>totalRatings\<close> is the number of its ratings and its
  \<open>stars\<close> their mean rounded to one decimal. Resource 7 is rated 5 and 4 and stores 4.5
  and 2; user 3 deletes the rating of 4. The route answers success and one rating of 5
  stars remains, yet the resource still stores 4.5 and 2.
\<close>

theorem delete_leaves_aggregate_stale:
  "delete_rating rated_54 \<lparr>del_userId = 3, del_ratingId = Some 11\<rparr> =
     (Inr ''Rating deleted successfully'',
      rated_54\<lparr>ratings :=
        [\<lparr>rating_id = 10, user = 2, resource = 7, stars = 5, review = Some []\<rparr>]\<rparr>) \<and>
   resources (rated_54\<lparr>ratings :=
        [\<lparr>rating_id = 10, user = 2, resource = 7, stars = 5, review = Some []\<rparr>]\<rparr>) 7 =
     Some \<lparr>uploadedBy = 1, resource_stars = 9 / 2, totalRatings = 2, isActive = True\<rparr>"
  by (simp add: delete_rating_def rated_54_def findById_def findByIdAndDelete_def
      findOneAndDelete_def post_findOneAndDelete_def matches_def)

text \<open>
  Claim C2, at an input where the code departs from it. The claim: a successful delete
  removes the rating and then recomputes the aggregate, so that deleting the only rating
  of a resource leaves its \<open>stars\<close> and \<open>totalRatings\<close> at 0. Resource 7 has the single
  rating of user 2, 4 stars; user 2 deletes it. The route answers success and no rating
  remains, yet the resource still stores 4 and 1.
\<close>

theorem delete_only_rating_keeps_aggregate:
  "delete_rating rated_once \<lparr>del_userId = 2, del_ratingId = Some 10\<rparr> =
     (Inr ''Rating deleted successfully'', rated_once\<lparr>ratings := []\<rparr>) \<and>
   resources (rated_once\<lparr>ratings := []\<rparr>) 7 =
     Some \<lparr>uploadedBy = 1, resource_stars = 4, totalRatings = 1, isActive = True\<rparr>"
  by (simp add: delete_rating_def rated_once_def findById_def findByIdAndDelete_def
      findOneAndDelete_def post_findOneAndDelete_def matches_def)

subsection \<open>The message of a submission\<close>

lemma upsert_stars: "upsert found u rid st rv s = (Inr doc, s') \<Longrightarrow> stars doc = st"
  by (cases found) (auto simp: upsert_None upsert_Some Let_def split: if_splits)

text \<open>The comparison of line 59 runs after the assignment of line 41: it never differs.\<close>

lemma message_always_added:
  assumes "post_rating_at seen s req = (Inr resp, s')"
  shows "message resp = ''Rating added successfully''"
  using assms
  by (auto simp: post_rating_at_def split: option.splits if_splits prod.splits sum.splits
      dest: upsert_stars)

text \<open>
  Claim C4, at an input where the code departs from it. The claim: the message of every
  successful submission tells a create from an update. User 2, whose rating of resource 7
  has 4 stars, submits 5 stars: the existing rating 10 is overwritten, and the message is
  the one that user 3 receives for a first rating of the same resource.
\<close>

theorem update_reports_added:
  "fst (post_rating rated_once
      \<lparr>req_userId = 2, req_resourceId = Some 7, req_stars = 5, req_review = None\<rparr>) =
     Inr \<lparr>message = ''Rating added successfully'',
          resp_rating =
            \<lparr>rating_id = 10, user = 2, resource = 7, stars = 5, review = Some []\<rparr>\<rparr> \<and>
   fst (post_rating rated_once
      \<lparr>req_userId = 3, req_resourceId = Some 7, req_stars = 5, req_review = None\<rparr>) =
     Inr \<lparr>message = ''Rating added successfully'',
          resp_rating =
            \<lparr>rating_id = 11, user = 3, resource = 7, stars = 5, review = Some []\<rparr>\<rparr>"
  by (simp add: post_rating_def post_rating_at_def rated_once_def findOne_def upsert_None
      upsert_Some Let_def)

subsection \<open>An insertion that meets the unique index\<close>

text \<open>
  Claim C3 as stated fails. The existence check of user 2 for resource 7 saw an empty
  collection; by the time of the insertion the collection holds user 2's rating of 4
  stars. The handler answers 500 and the stored rating keeps its 4 stars: the submitted 5
  stars are not written as an update.
\<close>

theorem late_insert_counterexample:
  "findOne [] 2 7 = None \<and>
   post_rating_at [] rated_once
      \<lparr>req_userId = 2, req_resourceId = Some 7, req_stars = 5, req_review = None\<rparr> =
     (Inl (InternalError ''Server error while adding rating''), rated_once\<lparr>nextId := 12\<rparr>) \<and>
   ratings (rated_once\<lparr>nextId := 12\<rparr>) =
     [\<lparr>rating_id = 10, user = 2, resource = 7, stars = 4, review = Some []\<rparr>]"
  by (simp add: post_rating_at_def rated_once_def findOne_def upsert_None)

text \<open>
  Claim C3, amended. When a valid submission's existence check saw no rating for the pair
  and the collection holds one by the time of the insertion, the unique index rejects the
  insertion and the handler does not recover: it answers the generic 500 error
  \<^verbatim>\<open>Server error while adding rating\<close>, and the Rating and Resource collections are left
  as they were, so no update is performed and no second rating is created.
\<close>

theorem late_insert_not_recovered:
  assumes "req_resourceId req = Some rid"
    and "1 \<le> req_stars req" and "req_stars req \<le> 5"
    and "case req_review req of None \<Rightarrow> True | Some v \<Rightarrow> length (trim v) \<le> 500"
    and "resources s rid = Some res" and "isActive res" and "uploadedBy res \<noteq> req_userId req"
    and "findOne seen (req_userId req) rid = None"
    and "findOne (ratings s) (req_userId req) rid = Some existing"
  shows "fst (post_rating_at seen s req) =
           Inl (InternalError ''Server error while adding rating'') \<and>
         ratings (snd (post_rating_at seen s req)) = ratings s \<and>
         resources (snd (post_rating_at seen s req)) = resources s"
proof -
  have "\<exists>r \<in> set (ratings s). user r = req_userId req \<and> resource r = rid"
    using findOne_Some [OF assms(9)] by blast
  then show ?thesis
    by (simp add: post_rating_at_accepted [OF assms(1-7)] assms(8) upsert_None Let_def)
qed

theorem late_insert_not_recovered_witness:
  "findOne [\<lparr>rating_id = 10, user = 2, resource = 7, stars = 5, review = Some []\<rparr>] 3 7 = None \<and>
   findOne (ratings rated_54) 3 7 =
     Some \<lparr>rating_id = 11, user = 3, resource = 7, stars = 4, review = Some []\<rparr> \<and>
   fst (post_rating_at [\<lparr>rating_id = 10, user = 2, resource = 7, stars = 5, review = Some []\<rparr>]
          rated_54 \<lparr>req_userId = 3, req_resourceId = Some 7, req_stars = 1, req_review = None\<rparr>) =
     Inl (InternalError ''Server error while adding rating'') \<and>
   ratings (snd (post_rating_at
          [\<lparr>rating_id = 10, user = 2, resource = 7, stars = 5, review = Some []\<rparr>]
          rated_54 \<lparr>req_userId = 3, req_resourceId = Some 7, req_stars = 1, req_review = None\<rparr>)) =
     ratings rated_54"
proof -
  let ?req = "\<lparr>req_userId = 3, req_resourceId = Some 7, req_stars = 1, req_review = None\<rparr>"
  let ?seen = "[\<lparr>rating_id = 10, user = 2, resource = 7, stars = 5, review = Some []\<rparr>]"
  let ?res = "\<lparr>uploadedBy = 1, resource_stars = 9 / 2, totalRatings = 2, isActive = True\<rparr>"
  have h1: "req_resourceId ?req = Some 7" by simp
  have h2: "1 \<le> req_stars ?req" and h3: "req_stars ?req \<le> 5" by simp_all
  have h4: "case req_review ?req of None \<Rightarrow> True | Some v \<Rightarrow> length (trim v) \<le> 500"
    by simp
  have h5: "resources rated_54 7 = Some ?res" by (simp add: rated_54_def)
  have h6: "isActive ?res" and h7: "uploadedBy ?res \<noteq> req_userId ?req" by simp_all
  have h8: "findOne ?seen (req_userId ?req) 7 = None" by (simp add: findOne_def)
  have h9: "findOne (ratings rated_54) (req_userId ?req) 7 =
      Some \<lparr>rating_id = 11, user = 3, resource = 7, stars = 4, review = Some []\<rparr>"
    by (simp add: findOne_def rated_54_def)
  show ?thesis
    using late_insert_not_recovered [OF h1 h2 h3 h4 h5 h6 h7 h8 h9] h8 h9 by simp
qed

subsection \<open>What holds of every reachable state\<close>

lemma same_id_same_rating:
  assumes "distinct (map rating_id rs)" and "x \<in> set rs" and "y \<in> set rs"
    and "rating_id x = rating_id y"
  shows "x = y"
  using assms by (meson distinct_map inj_onD)

text \<open>Overwriting the document of an id with one that agrees on a projection.\<close>

lemma overwrite_map:
  assumes "distinct (map rating_id rs)" and "old \<in> set rs" and "f doc = f old"
  shows "map f (map (\<lambda>r. if rating_id r = rating_id old then doc else r) rs) = map f rs"
proof -
  have "\<And>r. r \<in> set rs \<Longrightarrow> rating_id r = rating_id old \<Longrightarrow> r = old"
    using assms(1,2) same_id_same_rating by blast
  then show ?thesis
    using assms(3) by (auto simp: comp_def intro!: map_cong)
qed

lemma overwrite_match_length:
  assumes "distinct (map rating_id rs)" and "old \<in> set rs" and "resource doc = resource old"
  shows "length (match_resource rid (map (\<lambda>r. if rating_id r = rating_id old then doc else r) rs)) =
         length (match_resource rid rs)"
proof -
  let ?g = "\<lambda>r. if rating_id r = rating_id old then doc else r"
  have eq: "map resource (map ?g rs) = map resource rs"
    by (rule overwrite_map [OF assms])
  have key: "\<And>xs. length (match_resource rid xs) = length (filter (\<lambda>x. x = rid) (map resource xs))"
    by (simp add: match_resource_def filter_map comp_def)
  have "length (match_resource rid (map ?g rs)) =
      length (filter (\<lambda>x. x = rid) (map resource (map ?g rs)))"
    by (rule key)
  also have "\<dots> = length (filter (\<lambda>x. x = rid) (map resource rs))"
    by (simp only: eq)
  also have "\<dots> = length (match_resource rid rs)"
    by (rule key [symmetric])
  finally show ?thesis .
qed

lemma counts_covered_recompute:
  assumes "\<And>rid' res. rid' \<noteq> rid \<Longrightarrow> resources s rid' = Some res \<Longrightarrow>
             length (match_resource rid' (ratings s)) \<le> totalRatings res"
  shows "counts_covered (updateResourceStars rid s)"
proof (unfold counts_covered_def, intro allI impI)
  fix x res
  assume r: "resources (updateResourceStars rid s) x = Some res"
  show "length (match_resource x (ratings (updateResourceStars rid s))) \<le> totalRatings res"
  proof (cases "x = rid")
    case True
    then show ?thesis
      using r by (auto simp: updateResourceStars_resources split: option.splits)
  next
    case False
    then have "resources s x = Some res"
      using r by (auto simp: updateResourceStars_resources split: option.splits)
    then show ?thesis
      using assms False by simp
  qed
qed

lemma match_resource_append:
  "match_resource rid (rs @ [doc]) =
     match_resource rid rs @ (if resource doc = rid then [doc] else [])"
  by (simp add: match_resource_def)

lemma invariant_insert:
  assumes "invariant s" and "\<not> (\<exists>r \<in> set (ratings s). user r = u \<and> resource r = rid)"
    and "rating_id doc = nextId s" and "user doc = u" and "resource doc = rid"
  shows "invariant (updateResourceStars rid (s\<lparr>nextId := Suc (nextId s), ratings := ratings s @ [doc]\<rparr>))"
proof -
  let ?s = "s\<lparr>nextId := Suc (nextId s), ratings := ratings s @ [doc]\<rparr>"
  have u: "unique_pairs (ratings s @ [doc])"
    using assms by (auto simp: invariant_def unique_pairs_def)
  have i: "ids_below (updateResourceStars rid ?s)"
    using assms(1,3) by (auto simp: invariant_def ids_below_def less_Suc_eq)
  have c: "counts_covered (updateResourceStars rid ?s)"
    using assms(1,5)
    by (intro counts_covered_recompute) (auto simp: invariant_def counts_covered_def match_resource_append)
  show ?thesis using u i c by (simp add: invariant_def)
qed

lemma invariant_overwrite:
  assumes "invariant s" and "old \<in> set (ratings s)"
    and "rating_id doc = rating_id old" and "user doc = user old" and "resource doc = resource old"
  shows "invariant (updateResourceStars rid
           (s\<lparr>ratings := map (\<lambda>r. if rating_id r = rating_id old then doc else r) (ratings s)\<rparr>))"
proof -
  let ?rs = "map (\<lambda>r. if rating_id r = rating_id old then doc else r) (ratings s)"
  have d: "distinct (map rating_id (ratings s))"
    using assms(1) by (simp add: invariant_def ids_below_def)
  have ids: "map rating_id ?rs = map rating_id (ratings s)"
    by (rule overwrite_map [OF d assms(2,3)])
  have prs: "map (\<lambda>r. (user r, resource r)) ?rs = map (\<lambda>r. (user r, resource r)) (ratings s)"
    by (rule overwrite_map [OF d assms(2)]) (simp add: assms)
  have len: "\<And>x. length (match_resource x ?rs) = length (match_resource x (ratings s))"
    by (rule overwrite_match_length [OF d assms(2,5)])
  have "unique_pairs ?rs = unique_pairs (ratings s)"
    unfolding unique_pairs_def by (simp only: prs)
  then have u: "unique_pairs ?rs"
    using assms(1) by (simp add: invariant_def)
  have "distinct (map rating_id ?rs)" using d by (simp only: ids)
  moreover have "\<forall>r \<in> set ?rs. rating_id r < nextId s"
    using assms(1-3) by (auto simp: invariant_def ids_below_def)
  ultimately have i: "ids_below (updateResourceStars rid (s\<lparr>ratings := ?rs\<rparr>))"
    by (simp add: ids_below_def)
  have c: "counts_covered (updateResourceStars rid (s\<lparr>ratings := ?rs\<rparr>))"
    using assms(1) by (intro counts_covered_recompute) (simp add: invariant_def counts_covered_def len)
  show ?thesis using u i c by (simp add: invariant_def)
qed

lemma invariant_nextId:
  "invariant s \<Longrightarrow> invariant (s\<lparr>nextId := Suc (nextId s)\<rparr>)"
  by (auto simp: invariant_def ids_below_def counts_covered_def less_Suc_eq)

lemma upsert_invariant:
  assumes "invariant s" and "found = None \<or> found = findOne (ratings s) u rid"
  shows "invariant (snd (upsert found u rid st rv s))"
proof (cases found)
  case None
  then show ?thesis
    using assms(1)
    by (auto simp: upsert_None Let_def intro!: invariant_nextId invariant_insert)
next
  case (Some old)
  with assms(2) have "findOne (ratings s) u rid = Some old" by simp
  then have "old \<in> set (ratings s)" by (simp add: findOne_Some)
  then show ?thesis
    using assms(1) Some
    by (auto simp: upsert_Some Let_def intro!: invariant_overwrite)
qed

lemma match_resource_remove_first:
  "length (match_resource rid (remove_first P rs)) \<le> length (match_resource rid rs)"
  by (induction rs) (auto simp: match_resource_def)

lemma set_remove_first: "set (remove_first P xs) \<subseteq> set xs"
  by (induction xs) auto

lemma distinct_map_remove_first: "distinct (map f xs) \<Longrightarrow> distinct (map f (remove_first P xs))"
  by (induction xs) (use set_remove_first in \<open>fastforce+\<close>)

lemma invariant_delete:
  assumes "invariant s"
  shows "invariant (findByIdAndDelete i s)"
proof -
  let ?rs = "remove_first (\<lambda>r. rating_id r = i) (ratings s)"
  have u: "unique_pairs ?rs"
    using assms by (simp add: invariant_def unique_pairs_def distinct_map_remove_first)
  have b: "ids_below (s\<lparr>ratings := ?rs\<rparr>)"
    using assms set_remove_first [of "\<lambda>r. rating_id r = i" "ratings s"]
    by (auto simp: invariant_def ids_below_def distinct_map_remove_first)
  have c: "counts_covered (s\<lparr>ratings := ?rs\<rparr>)"
  proof (unfold counts_covered_def, intro allI impI)
    fix x res
    assume "resources (s\<lparr>ratings := ?rs\<rparr>) x = Some res"
    then have "length (match_resource x (ratings s)) \<le> totalRatings res"
      using assms by (simp add: invariant_def counts_covered_def)
    moreover have "length (match_resource x ?rs) \<le> length (match_resource x (ratings s))"
      by (rule match_resource_remove_first)
    ultimately show "length (match_resource x (ratings (s\<lparr>ratings := ?rs\<rparr>))) \<le> totalRatings res"
      by simp
  qed
  show ?thesis
    using u b c by (simp add: findByIdAndDelete_eq invariant_def)
qed

lemma reachable_invariant: "reachable s \<Longrightarrow> invariant s"
proof (induction rule: reachable.induct)
  case (start s)
  then show ?case by (simp add: invariant_def unique_pairs_def ids_below_def counts_covered_def match_resource_def)
next
  case (submit s req)
  show ?case
    using post_rating_at_state [of "ratings s" s req] submit.IH
    by (auto simp: post_rating_def intro: upsert_invariant)
next
  case (submit_late s req rid seen)
  show ?case
    using post_rating_at_state [of seen s req] submit_late
    by (auto intro: upsert_invariant)
next
  case (delete s dreq)
  show ?case
    using delete_rating_state [of s dreq] delete.IH by (auto intro: invariant_delete)
qed

subsection \<open>Submitting again\<close>

lemma resubmit_overwrites_aux:
  assumes reach: "reachable s"
    and rid: "req_resourceId req = Some rid"
    and st: "1 \<le> req_stars req" "req_stars req \<le> 5"
    and rv: "case req_review req of None \<Rightarrow> True | Some v \<Rightarrow> length (trim v) \<le> 500"
    and res: "resources s rid = Some res" "isActive res" "uploadedBy res \<noteq> req_userId req"
    and old: "findOne (ratings s) (req_userId req) rid = Some old"
  shows "\<exists>msg s' res'.
      post_rating s req =
        (Inr \<lparr>message = msg,
              resp_rating = assign_fields old (req_stars req) (map_option trim (req_review req))\<rparr>,
         s') \<and>
      ratings s' =
        map (\<lambda>r. if r = old
                  then assign_fields old (req_stars req) (map_option trim (req_review req))
                  else r) (ratings s) \<and>
      length (match_resource rid (ratings s')) = length (match_resource rid (ratings s)) \<and>
      resources s' rid = Some res' \<and>
      totalRatings res' = length (match_resource rid (ratings s)) \<and>
      totalRatings res' \<le> totalRatings res \<and>
      unique_pairs (ratings s')"
proof -
  let ?doc = "assign_fields old (req_stars req) (map_option trim (req_review req))"
  let ?rs = "map (\<lambda>r. if rating_id r = rating_id old then ?doc else r) (ratings s)"
  let ?s' = "updateResourceStars rid (s\<lparr>ratings := ?rs\<rparr>)"
  have inv: "invariant s" by (rule reachable_invariant [OF reach])
  then have d: "distinct (map rating_id (ratings s))"
    by (simp add: invariant_def ids_below_def)
  have mem: "old \<in> set (ratings s)" and ro: "resource old = rid"
    using findOne_Some [OF old] by simp_all
  have ex: "\<exists>r \<in> set (ratings s). rating_id r = rating_id old"
    using mem by blast
  have up: "upsert (Some old) (req_userId req) rid (req_stars req)
      (map_option trim (req_review req)) s = (Inr ?doc, ?s')"
    by (simp only: upsert_Some Let_def ex if_True ro)
  have post: "post_rating s req =
      (Inr \<lparr>message = ''Rating added successfully'', resp_rating = ?doc\<rparr>, ?s')"
    unfolding post_rating_def
    by (simp add: post_rating_at_accepted [OF rid st rv res] old up)
  have rs: "?rs = map (\<lambda>r. if r = old then ?doc else r) (ratings s)"
    using same_id_same_rating [OF d _ mem] by (intro map_cong) auto
  have len: "length (match_resource rid ?rs) = length (match_resource rid (ratings s))"
    by (rule overwrite_match_length [OF d mem]) simp
  have r': "resources ?s' rid = Some (res\<lparr>resource_stars :=
      (if match_resource rid ?rs = [] then 0
       else of_int (Math_round (avg (map stars (match_resource rid ?rs)) * 10)) / 10),
      totalRatings := length (match_resource rid ?rs)\<rparr>)"
    using res(1) by (simp add: updateResourceStars_resources)
  have le: "length (match_resource rid (ratings s)) \<le> totalRatings res"
    using inv res(1) by (simp add: invariant_def counts_covered_def)
  have "reachable (snd (post_rating s req))"
    by (rule reachable.submit [OF reach])
  then have "invariant ?s'"
    using post reachable_invariant by fastforce
  then have u: "unique_pairs (ratings ?s')"
    by (simp add: invariant_def)
  define s' where "s' = ?s'"
  define res' where "res' = res\<lparr>resource_stars :=
      (if match_resource rid ?rs = [] then 0
       else of_int (Math_round (avg (map stars (match_resource rid ?rs)) * 10)) / 10),
      totalRatings := length (match_resource rid ?rs)\<rparr>"
  have f1: "post_rating s req =
      (Inr \<lparr>message = ''Rating added successfully'', resp_rating = ?doc\<rparr>, s')"
    using post by (simp only: s'_def)
  have "ratings s' = ?rs" by (simp add: s'_def)
  then have f2: "ratings s' = map (\<lambda>r. if r = old then ?doc else r) (ratings s)"
    by (simp only: rs)
  have f3: "length (match_resource rid (ratings s')) = length (match_resource rid (ratings s))"
    using len by (simp add: s'_def)
  have f4: "resources s' rid = Some res'"
    using r' by (simp only: s'_def res'_def)
  have f5: "totalRatings res' = length (match_resource rid (ratings s))"
    using len by (simp add: res'_def)
  have f6: "totalRatings res' \<le> totalRatings res"
    using le f5 by simp
  have f7: "unique_pairs (ratings s')"
    using u by (simp only: s'_def)
  show ?thesis
    using f1 f2 f3 f4 f5 f6 f7 by blast
qed

text \<open>
  Claim C8. In every state the routes can produce, each pair of user and resource has at
  most one rating. When a user who already has a rating for a resource submits again, the
  request succeeds and overwrites that rating, keeping its id, user and resource and
  taking the new stars and, if one was sent, the new review; no document is added, the
  number of ratings of the resource is unchanged, and the \<open>totalRatings\<close> written on the
  resource is that number and does not exceed the value stored before.
\<close>

theorem one_rating_per_pair:
  assumes "reachable s"
  shows "unique_pairs (ratings s) \<and>
    (\<forall>req rid res old.
       req_resourceId req = Some rid \<and> 1 \<le> req_stars req \<and> req_stars req \<le> 5 \<and>
       (case req_review req of None \<Rightarrow> True | Some v \<Rightarrow> length (trim v) \<le> 500) \<and>
       resources s rid = Some res \<and> isActive res \<and> uploadedBy res \<noteq> req_userId req \<and>
       findOne (ratings s) (req_userId req) rid = Some old \<longrightarrow>
       (\<exists>msg s' res'.
          post_rating s req =
            (Inr \<lparr>message = msg,
                  resp_rating = assign_fields old (req_stars req) (map_option trim (req_review req))\<rparr>,
             s') \<and>
          ratings s' =
            map (\<lambda>r. if r = old
                      then assign_fields old (req_stars req) (map_option trim (req_review req))
                      else r) (ratings s) \<and>
          length (match_resource rid (ratings s')) = length (match_resource rid (ratings s)) \<and>
          resources s' rid = Some res' \<and>
          totalRatings res' = length (match_resource rid (ratings s)) \<and>
          totalRatings res' \<le> totalRatings res \<and>
          unique_pairs (ratings s')))"
proof (intro conjI allI impI)
  show "unique_pairs (ratings s)"
    using reachable_invariant [OF assms] by (simp add: invariant_def)
next
  fix req :: post_request and rid res old
  assume h: "req_resourceId req = Some rid \<and> 1 \<le> req_stars req \<and> req_stars req \<le> 5 \<and>
       (case req_review req of None \<Rightarrow> True | Some v \<Rightarrow> length (trim v) \<le> 500) \<and>
       resources s rid = Some res \<and> isActive res \<and> uploadedBy res \<noteq> req_userId req \<and>
       findOne (ratings s) (req_userId req) rid = Some old"
  show "\<exists>msg s' res'.
          post_rating s req =
            (Inr \<lparr>message = msg,
                  resp_rating = assign_fields old (req_stars req) (map_option trim (req_review req))\<rparr>,
             s') \<and>
          ratings s' =
            map (\<lambda>r. if r = old
                      then assign_fields old (req_stars req) (map_option trim (req_review req))
                      else r) (ratings s) \<and>
          length (match_resource rid (ratings s')) = length (match_resource rid (ratings s)) \<and>
          resources s' rid = Some res' \<and>
          totalRatings res' = length (match_resource rid (ratings s)) \<and>
          totalRatings res' \<le> totalRatings res \<and>
          unique_pairs (ratings s')"
    using h by (intro resubmit_overwrites_aux [OF assms]) simp_all
qed

lemma reachable_rated_once: "reachable rated_once"
proof -
  have "ratings unrated = []" by (simp add: unrated_def)
  then have "reachable (snd (post_rating unrated
      \<lparr>req_userId = 2, req_resourceId = Some 7, req_stars = 4, req_review = None\<rparr>))"
    by (intro reachable.submit reachable.start)
  moreover have "snd (post_rating unrated
      \<lparr>req_userId = 2, req_resourceId = Some 7, req_stars = 4, req_review = None\<rparr>) = rated_once"
    by (simp add: post_rating_def post_rating_at_def unrated_def rated_once_def findOne_def
        upsert_None Let_def updateResourceStars_def aggregate_avg_def match_resource_def avg_def
        findByIdAndUpdate_def Math_round_numeral)
  ultimately show ?thesis by simp
qed

theorem one_rating_per_pair_witness:
  "reachable rated_once \<and> unique_pairs (ratings rated_once) \<and>
   findOne (ratings rated_once) 2 7 =
     Some \<lparr>rating_id = 10, user = 2, resource = 7, stars = 4, review = Some []\<rparr> \<and>
   (\<exists>msg s'.
      post_rating rated_once
        \<lparr>req_userId = 2, req_resourceId = Some 7, req_stars = 1, req_review = Some '' fine ''\<rparr> =
        (Inr \<lparr>message = msg,
              resp_rating =
                \<lparr>rating_id = 10, user = 2, resource = 7, stars = 1, review = Some ''fine''\<rparr>\<rparr>, s') \<and>
      ratings s' =
        [\<lparr>rating_id = 10, user = 2, resource = 7, stars = 1, review = Some ''fine''\<rparr>] \<and>
      map_option totalRatings (resources s' 7) = Some 1 \<and> unique_pairs (ratings s'))"
proof -
  let ?req = "\<lparr>req_userId = 2, req_resourceId = Some 7, req_stars = 1, req_review = Some '' fine ''\<rparr>"
  let ?old = "\<lparr>rating_id = 10, user = 2, resource = 7, stars = 4, review = Some []\<rparr>"
  let ?res = "\<lparr>uploadedBy = 1, resource_stars = 4, totalRatings = 1, isActive = True\<rparr>"
  have t: "trim '' fine '' = ''fine''"
    by (simp add: trim_def is_space_def)
  have f: "findOne (ratings rated_once) 2 7 = Some ?old"
    by (simp add: rated_once_def findOne_def)
  have h: "req_resourceId ?req = Some 7 \<and> 1 \<le> req_stars ?req \<and> req_stars ?req \<le> 5 \<and>
       (case req_review ?req of None \<Rightarrow> True | Some v \<Rightarrow> length (trim v) \<le> 500) \<and>
       resources rated_once 7 = Some ?res \<and> isActive ?res \<and> uploadedBy ?res \<noteq> req_userId ?req \<and>
       findOne (ratings rated_once) (req_userId ?req) 7 = Some ?old"
    using f by (simp add: t) (simp add: rated_once_def)
  have m: "length (match_resource 7 (ratings rated_once)) = 1"
    by (simp add: rated_once_def match_resource_def)
  have rs: "ratings rated_once = [?old]"
    by (simp add: rated_once_def)
  from one_rating_per_pair [OF reachable_rated_once]
  have u: "unique_pairs (ratings rated_once)"
    and step: "\<exists>msg s' res'.
          post_rating rated_once ?req =
            (Inr \<lparr>message = msg,
                  resp_rating =
                    assign_fields ?old (req_stars ?req) (map_option trim (req_review ?req))\<rparr>,
             s') \<and>
          ratings s' =
            map (\<lambda>r. if r = ?old
                      then assign_fields ?old (req_stars ?req) (map_option trim (req_review ?req))
                      else r) (ratings rated_once) \<and>
          length (match_resource 7 (ratings s')) = length (match_resource 7 (ratings rated_once)) \<and>
          resources s' 7 = Some res' \<and>
          totalRatings res' = length (match_resource 7 (ratings rated_once)) \<and>
          totalRatings res' \<le> totalRatings ?res \<and>
          unique_pairs (ratings s')"
    using h by blast+
  from step obtain msg s' res' where
    "post_rating rated_once ?req =
       (Inr \<lparr>message = msg,
             resp_rating = \<lparr>rating_id = 10, user = 2, resource = 7, stars = 1, review = Some ''fine''\<rparr>\<rparr>, s')"
    "ratings s' = [\<lparr>rating_id = 10, user = 2, resource = 7, stars = 1, review = Some ''fine''\<rparr>]"
    "resources s' 7 = Some res'" "totalRatings res' = 1" "unique_pairs (ratings s')"
    by (auto simp: t m rs match_resource_def assign_fields_def)
  then show ?thesis
    using reachable_rated_once u f by auto
qed

end
